theory Spec2Isabelle
  imports Main "HOL-Library.Word"
begin

section \<open>Bitcoin descriptors with miniscript: a model of src/index.ts\<close>

text \<open>
  The module \<^verbatim>\<open>index.ts\<close> is glue around libraries: the regular expressions of
  \<^verbatim>\<open>./re\<close>, the key parser of \<^verbatim>\<open>./keyExpressions\<close>, the checksum of
  \<^verbatim>\<open>./checksum\<close>, the number encoder of \<^verbatim>\<open>./numberEncodeAsm\<close>, the miniscript
  engine and bitcoinjs-lib. None of them is part of the source file; each is a field of
  the record \<open>env\<close> below, and every function of the model takes that record as its
  first argument. Whatever is proved for all \<open>E\<close> holds for the real libraries too.
\<close>

subsection \<open>Strings, buffers and JavaScript objects\<close>

type_synonym bytes = "8 word list"

definition hexdigit :: "nat \<Rightarrow> char" where
  "hexdigit n = ''0123456789abcdef'' ! (n mod 16)"

text \<open>\<^verbatim>\<open>buffer.toString('hex')\<close>: two lower-case digits per byte.\<close>

fun toHex :: "bytes \<Rightarrow> string" where
  "toHex [] = []"
| "toHex (b # bs) = hexdigit (unat b div 16) # hexdigit (unat b mod 16) # toHex bs"

text \<open>Decimal digits of a natural number, as \<^verbatim>\<open>'@' + n\<close> prints a small integer.\<close>

function decimal :: "nat \<Rightarrow> string" where
  "decimal n =
     (if n < 10 then [''0123456789'' ! n]
      else decimal (n div 10) @ [''0123456789'' ! (n mod 10)])"
  by pat_completeness auto
termination
  by (relation "measure id") auto

text \<open>
  A JavaScript object used as a dictionary with string keys that are not integer-like
  (every key of this module starts with \<^verbatim>\<open>@\<close> or \<^verbatim>\<open><\<close>): an association list in
  insertion order. \<^verbatim>\<open>m[k] = v\<close> overwrites the value of an existing key in place and
  appends a new key.
\<close>

fun assign :: "(string \<times> 'v) list \<Rightarrow> string \<Rightarrow> 'v \<Rightarrow> (string \<times> 'v) list" where
  "assign [] k v = [(k, v)]"
| "assign ((k', v') # m) k v =
     (if k' = k then (k, v) # m else (k', v') # assign m k v)"

text \<open>
  An object has an identity besides its fields: \<^verbatim>\<open>new Set(objects)\<close> and \<^verbatim>\<open>===\<close>
  compare references, not contents. \<open>ident\<close> is the order of allocation inside the
  call that creates the object.
\<close>

datatype 'a obj = Obj (ident: nat) (deref: 'a)

text \<open>Any object, an empty Buffer included, is truthy.\<close>

definition truthy_buffer :: "bytes \<Rightarrow> bool" where
  "truthy_buffer b = True"

text \<open>A string (or an absent one) is truthy when it is present and not empty.\<close>

fun truthy :: "string option \<Rightarrow> bool" where
  "truthy None = False"
| "truthy (Some s) = (s \<noteq> [])"

fun startsWith :: "string \<Rightarrow> string \<Rightarrow> bool" where
  "startsWith s [] = True"
| "startsWith [] (c # cs) = False"
| "startsWith (d # ds) (c # cs) = (d = c \<and> startsWith ds cs)"

subsection \<open>Errors\<close>

text \<open>The failures of the key parser (spec 4.3); the parser itself is a library.\<close>

datatype key_error = InvalidKey | SegwitRequiresCompressed | HardenedFromXpub

text \<open>One constructor per \<^verbatim>\<open>throw\<close> of index.ts, and one per library that can throw.\<close>

datatype error =
    MissingChecksum
  | BadChecksum
  | InvalidIndex
  | CouldNotDecompile
  | DuplicatePubkey
  | InvalidExpansionMap
  | InsaneMiniscript
  | Unresolvable
  | ConstraintsUnmet
  | InvalidKnownsMap
  | InvalidAddress
  | InvalidExpression
  | KeyExpressionNotExtracted
  | NoMiniscriptFound
  | ScriptTooLarge
  | P2SHScriptTooLarge
  | TooManyOps
  | MiniscriptInP2SHDisallowed
  | CouldNotParse
  | SegwitUndetermined
  | NoAddress
  | NoOutput
  | NoMiniscript
  | NoSatisfaction
  | NoSuchOutput
  | LocktimeConflict
  | NoSignatures
  | KeyError key_error
  | AsmError
  | PaymentError
  | TxParseError
  | FinalizeError


text \<open>Sequencing of steps that can throw: the first failure ends the call.\<close>

definition andThen :: "error + 'a \<Rightarrow> ('a \<Rightarrow> error + 'b) \<Rightarrow> error + 'b" where
  "andThen m f = (case m of Inl e \<Rightarrow> Inl e | Inr x \<Rightarrow> f x)"

subsection \<open>String replacement as JavaScript does it\<close>

text \<open>
  The replacement text of \<^verbatim>\<open>replace\<close> and \<^verbatim>\<open>replaceAll\<close> is not literal: the
  patterns \<^verbatim>\<open>$$\<close>, \<^verbatim>\<open>$&\<close>, dollar-backtick and dollar-quote stand for a dollar
  sign, the matched text, the text in front of the match and the text after it. A string
  pattern has no capture groups, so \<^verbatim>\<open>$1\<close> stays as it is. The arguments are the
  matched text, the text in front of it, the text after it and the replacement.
\<close>

fun getSubstitution :: "string \<Rightarrow> string \<Rightarrow> string \<Rightarrow> string \<Rightarrow> string" where
  "getSubstitution m b a [] = []"
| "getSubstitution m b a [c] = [c]"
| "getSubstitution m b a (c # d # r) =
     (if c = CHR ''$'' \<and> d = CHR ''$'' then CHR ''$'' # getSubstitution m b a r
      else if c = CHR ''$'' \<and> d = CHR ''&'' then m @ getSubstitution m b a r
      else if c = CHR ''$'' \<and> d = CHR 0x60 then b @ getSubstitution m b a r
      else if c = CHR ''$'' \<and> d = CHR 0x27 then a @ getSubstitution m b a r
      else c # getSubstitution m b a (d # r))"

text \<open>
  \<^verbatim>\<open>s.replace(search, repl)\<close> with a string pattern: the first occurrence only.
  \<open>seen\<close> is the text in front of \<open>rest\<close>, last character first.
\<close>

fun replaceFirstFrom :: "string \<Rightarrow> string \<Rightarrow> string \<Rightarrow> string \<Rightarrow> string" where
  "replaceFirstFrom search repl seen rest =
     (if startsWith rest search
      then getSubstitution search (rev seen) (drop (length search) rest) repl
           @ drop (length search) rest
      else case rest of
             [] \<Rightarrow> []
           | c # cs \<Rightarrow> c # replaceFirstFrom search repl (c # seen) cs)"

definition replaceFirst :: "string \<Rightarrow> string \<Rightarrow> string \<Rightarrow> string" where
  "replaceFirst search repl s = replaceFirstFrom search repl [] s"

text \<open>
  \<^verbatim>\<open>s.replaceAll(search, repl)\<close> with a string pattern: every occurrence, left to
  right, without overlap. An empty pattern matches in front of every character and at
  the end.
\<close>

lemma startsWith_drop_shorter:
  "search \<noteq> [] \<Longrightarrow> startsWith rest search \<Longrightarrow>
   length rest - length search < length rest"
  by (cases search; cases rest) auto

function replaceAllFrom :: "string \<Rightarrow> string \<Rightarrow> string \<Rightarrow> string \<Rightarrow> string" where
  "replaceAllFrom search repl seen rest =
     (if search \<noteq> [] \<and> startsWith rest search
      then getSubstitution search (rev seen) (drop (length search) rest) repl
           @ replaceAllFrom search repl (rev search @ seen) (drop (length search) rest)
      else case rest of
             [] \<Rightarrow> (if search = [] then getSubstitution [] (rev seen) [] repl else [])
           | c # cs \<Rightarrow>
               (if search = [] then getSubstitution [] (rev seen) rest repl else [])
               @ c # replaceAllFrom search repl (c # seen) cs)"
  by pat_completeness auto
termination
  by (relation "measure (\<lambda>(search, repl, seen, rest). length rest)")
     (auto simp: startsWith_drop_shorter)

definition replaceAll :: "string \<Rightarrow> string \<Rightarrow> string \<Rightarrow> string" where
  "replaceAll search repl s = replaceAllFrom search repl [] s"

subsection \<open>Data of the module\<close>

datatype network = Bitcoin | Testnet | Regtest

text \<open>The fields of a parsed key expression that index.ts reads.\<close>

record KeyExpression =
  pubkey :: bytes
  masterFingerprint :: "bytes option"
  path :: "string option"

type_synonym ExpansionMap = "(string \<times> KeyExpression obj) list"

record Preimage =
  digest :: string
  preimage :: string

record PartialSig =
  sig_pubkey :: bytes
  signature :: bytes

text \<open>A solution of the satisfier, and the result of the compiler.\<close>

record Sat =
  asm :: string
  nLockTime :: "nat option"
  nSequence :: "nat option"

record Compiled =
  compiled_asm :: string
  issane :: bool

record Constraints =
  c_nLockTime :: "nat option"
  c_nSequence :: "nat option"

record Satisfaction =
  scriptSatisfaction :: bytes
  r_nLockTime :: "nat option"
  r_nSequence :: "nat option"

text \<open>What \<^verbatim>\<open>bscript.decompile\<close> returns: opcodes as numbers, pushed data as Buffers.\<close>

datatype chunk = Opcode nat | PushData bytes

text \<open>
  A payment of bitcoinjs-lib, written as the call that builds it: \<open>Redeem s\<close> is the
  literal \<^verbatim>\<open>{ output: s, network }\<close>, \<open>FromOutput k s\<close> is
  \<^verbatim>\<open>payments.k({ output: s, network })\<close>.
\<close>

datatype paykind = KP2PKH | KP2SH | KP2WPKH | KP2WSH | KP2TR

datatype payment =
    P2PK bytes
  | P2PKH bytes
  | P2WPKH bytes
  | P2SH payment
  | P2WSH payment
  | Redeem bytes
  | FromOutput paykind bytes

text \<open>The private fields of the class Descriptor.\<close>

record Descriptor =
  d_payment :: payment
  d_preimages :: "Preimage list"
  d_miniscript :: "string option"
  d_witnessScript :: "bytes option"
  d_isSegwit :: "bool option"
  d_expandedExpression :: "string option"
  d_expandedMiniscript :: "string option"
  d_expansionMap :: "ExpansionMap option"
  d_network :: network
  d_nLockTime :: "nat option"
  d_nSequence :: "nat option"

text \<open>A transaction as \<^verbatim>\<open>Transaction.fromHex\<close> parses it.\<close>

record TxOut =
  out_script :: bytes
  out_value :: nat

record Transaction =
  outs :: "TxOut list"
  getHash :: bytes
  toBuffer :: bytes

text \<open>
  The Psbt of bitcoinjs-lib holds a lock time and a list of inputs.
  \<open>SatisfactionFinalizer s n\<close> is \<^verbatim>\<open>finalScriptsFuncFactory(s, n)\<close> of ./psbt;
  \<open>DefaultFinalizer\<close> is \<^verbatim>\<open>finalizeInput\<close> called with the index alone.
\<close>

datatype finalizer = DefaultFinalizer | SatisfactionFinalizer bytes network

record Bip32Derivation =
  bd_masterFingerprint :: bytes
  bd_pubkey :: bytes
  bd_path :: string

record WitnessUtxo =
  wu_script :: bytes
  wu_value :: nat

record PsbtInput =
  in_hash :: bytes
  in_index :: int
  nonWitnessUtxo :: bytes
  bip32Derivation :: "Bip32Derivation list option"
  witnessUtxo :: "WitnessUtxo option"
  in_witnessScript :: "bytes option"
  in_sequence :: "nat option"
  partialSig :: "PartialSig list option"

record Psbt =
  locktime :: "nat option"
  inputs :: "PsbtInput list"

definition setLocktime :: "Psbt \<Rightarrow> nat \<Rightarrow> Psbt" where
  "setLocktime psbt n = psbt\<lparr>locktime := Some n\<rparr>"

definition addInput :: "Psbt \<Rightarrow> PsbtInput \<Rightarrow> Psbt" where
  "addInput psbt i = psbt\<lparr>inputs := inputs psbt @ [i]\<rparr>"

text \<open>A JavaScript number as \<^verbatim>\<open>Number.isInteger\<close> sees it: integer-valued, or not
  (a fraction, NaN, an infinity).\<close>

datatype jsnumber = Integer int | NonInteger

subsection \<open>The libraries\<close>

text \<open>
  \<^item> \<open>DescriptorChecksum\<close>: ./checksum.
  \<^item> \<open>checksumCharset\<close>: the alphabet of \<^verbatim>\<open>RE.reChecksum\<close>.
  \<^item> \<open>reKeyExp seen rest\<close>: the length of the match of \<^verbatim>\<open>RE.reKeyExp\<close> that
    starts where \<open>rest\<close> starts, if there is one; \<open>seen\<close> is the text in front of
    \<open>rest\<close>, last character first.
  \<^item> \<open>reAddrAnchored\<close> and the three \<open>re...MiniscriptAnchored\<close>: capture group 1 of
    the match; the other anchored expressions only say whether they match.
  \<^item> \<open>globalParseKeyExpression\<close>: ./keyExpressions.
  \<^item> \<open>compileMiniscript\<close>, \<open>satisfier\<close> (the list \<^verbatim>\<open>nonMalleableSats\<close> for an
    expanded miniscript and the knowns): @bitcoinerlab/miniscript.
  \<^item> \<open>numberEncodeAsm\<close>: \<^verbatim>\<open>numberEncodeAsm(Number(num))\<close> for a string of digits.
  \<^item> \<open>exponentForm\<close>: \<^verbatim>\<open>toString\<close> of an integer-valued number from \<open>10^21\<close> on,
    which JavaScript prints with an exponent.
  \<^item> \<open>bufferGreater b n\<close>: the comparison \<^verbatim>\<open>b > n\<close> of a Buffer with a number,
    which JavaScript decides by reading the Buffer's text as a number.
  \<^item> \<open>payment_valid\<close>: whether bitcoinjs-lib builds the payment or throws;
    \<open>payment_output\<close>, \<open>payment_address\<close>: the fields of a payment.
  \<^item> the rest: bitcoinjs-lib's \<^verbatim>\<open>crypto.hash160\<close>, \<^verbatim>\<open>script.fromASM\<close>,
    \<^verbatim>\<open>script.decompile\<close>, \<^verbatim>\<open>address.toOutputScript\<close>, \<^verbatim>\<open>Transaction.fromHex\<close>
    and \<^verbatim>\<open>psbt.finalizeInput\<close>; \<open>None\<close> where the library throws or returns null.
\<close>

record env =
  DescriptorChecksum :: "string \<Rightarrow> string"
  checksumCharset :: string
  reKeyExp :: "string \<Rightarrow> string \<Rightarrow> nat option"
  reAddrAnchored :: "string \<Rightarrow> string option"
  rePkAnchored :: "string \<Rightarrow> bool"
  rePkhAnchored :: "string \<Rightarrow> bool"
  reShWpkhAnchored :: "string \<Rightarrow> bool"
  reWpkhAnchored :: "string \<Rightarrow> bool"
  reShWshMiniscriptAnchored :: "string \<Rightarrow> string option"
  reShMiniscriptAnchored :: "string \<Rightarrow> string option"
  reWshMiniscriptAnchored :: "string \<Rightarrow> string option"
  globalParseKeyExpression :: "string \<Rightarrow> network \<Rightarrow> bool \<Rightarrow> key_error + KeyExpression"
  compileMiniscript :: "string \<Rightarrow> Compiled"
  satisfier :: "string \<Rightarrow> string list \<Rightarrow> Sat list"
  numberEncodeAsm :: "string \<Rightarrow> string"
  exponentForm :: "int \<Rightarrow> string"
  bufferGreater :: "bytes \<Rightarrow> nat \<Rightarrow> bool"
  hash160 :: "bytes \<Rightarrow> bytes"
  fromASM :: "string \<Rightarrow> bytes option"
  decompile :: "bytes \<Rightarrow> chunk list option"
  toOutputScript :: "string \<Rightarrow> network \<Rightarrow> bytes option"
  payment_valid :: "payment \<Rightarrow> network \<Rightarrow> bool"
  payment_output :: "payment \<Rightarrow> bytes option"
  payment_address :: "payment \<Rightarrow> string option"
  Transaction_fromHex :: "string \<Rightarrow> Transaction option"
  psbt_finalizeInput :: "Psbt \<Rightarrow> nat \<Rightarrow> finalizer \<Rightarrow> Psbt option"


subsection \<open>isolate (lines 58-98)\<close>

text \<open>
  Modelled from the spec: the regular expression \<^verbatim>\<open>RE.reChecksum\<close> of ./re, which is
  not part of the source file. Section 3 of the spec: the suffix is \<^verbatim>\<open>#\<close> and 8
  characters of a fixed alphabet. \<^verbatim>\<open>expression.match(`(${RE.reChecksum})$`)\<close> can only
  match the last 9 characters; the result is the matched text \<^verbatim>\<open>mChecksum[0]\<close>.
\<close>

definition matchChecksum :: "env \<Rightarrow> string \<Rightarrow> string option" where
  "matchChecksum E expression =
     (let n = length expression in
      if 9 \<le> n \<and> expression ! (n - 9) = CHR ''#''
         \<and> list_all (\<lambda>c. c \<in> set (checksumCharset E)) (drop (n - 8) expression)
      then Some (drop (n - 9) expression)
      else None)"

text \<open>\<^verbatim>\<open>index.toString()\<close> for an integer-valued number that is not negative.\<close>

definition numberToString :: "env \<Rightarrow> int \<Rightarrow> string" where
  "numberToString E i = (if i < 10 ^ 21 then decimal (nat i) else exponentForm E i)"

definition isolate :: "env \<Rightarrow> string \<Rightarrow> bool \<Rightarrow> jsnumber \<Rightarrow> error + string" where
  "isolate E expression checksumRequired index =
     (let mChecksum = matchChecksum E expression in
      if mChecksum = None \<and> checksumRequired then Inl MissingChecksum
      else
        andThen
          (case mChecksum of
             None \<Rightarrow> Inr expression
           | Some m \<Rightarrow>
               (let checksum = drop 1 m;
                    isolatedExpression = take (length expression - length m) expression
                in if checksum \<noteq> DescriptorChecksum E isolatedExpression
                   then Inl BadChecksum
                   else Inr isolatedExpression))
          (\<lambda>isolatedExpression.
             if CHR ''*'' \<in> set isolatedExpression then
               (case index of
                  NonInteger \<Rightarrow> Inl InvalidIndex
                | Integer i \<Rightarrow>
                    if i < 0 then Inl InvalidIndex
                    else Inr (replaceAll ''*'' (numberToString E i) isolatedExpression))
             else Inr isolatedExpression))"

subsection \<open>expandMiniscript (lines 170-202)\<close>

definition parseKeyExpression ::
  "env \<Rightarrow> string \<Rightarrow> network \<Rightarrow> bool \<Rightarrow> error + KeyExpression" where
  "parseKeyExpression E keyExpression net seg =
     (case globalParseKeyExpression E keyExpression net seg of
        Inl e \<Rightarrow> Inl (KeyError e)
      | Inr k \<Rightarrow> Inr k)"

text \<open>
  \<^verbatim>\<open>miniscript.replace(RegExp(RE.reKeyExp, 'g'), callback)\<close>, with the search at
  the start of \<open>rest\<close> and \<open>seen\<close> the text in front of it, last character first.
  The state is the number of objects the callback has allocated and the expansion map.
  At every match the callback builds the key \<^verbatim>\<open>'@' + Object.keys(expansionMap).length\<close>,
  stores the freshly parsed key expression under it and returns the key as the
  replacement; a failure of the parser ends the call. After an empty match the search
  moves one character on, as the JavaScript engine does.
\<close>

function replaceKeyExpressions ::
  "env \<Rightarrow> bool \<Rightarrow> network \<Rightarrow> string \<Rightarrow> string \<Rightarrow> nat \<times> ExpansionMap
   \<Rightarrow> error + (string \<times> nat \<times> ExpansionMap)" where
  "replaceKeyExpressions E seg net seen rest st =
     (case reKeyExp E seen rest of
        None \<Rightarrow>
          (case rest of
             [] \<Rightarrow> Inr ([], st)
           | c # cs \<Rightarrow>
               andThen (replaceKeyExpressions E seg net (c # seen) cs st)
                 (\<lambda>(out, st'). Inr (c # out, st')))
      | Some n \<Rightarrow>
          (let keyExpression = take n rest;
               key = ''@'' @ decimal (length (snd st))
           in case parseKeyExpression E keyExpression net seg of
                Inl e \<Rightarrow> Inl e
              | Inr ke \<Rightarrow>
                  (let st1 = (Suc (fst st), assign (snd st) key (Obj (fst st) ke))
                   in if keyExpression = [] then
                        (case rest of
                           [] \<Rightarrow> Inr (key, st1)
                         | c # cs \<Rightarrow>
                             andThen (replaceKeyExpressions E seg net (c # seen) cs st1)
                               (\<lambda>(out, st'). Inr (key @ c # out, st')))
                      else
                        andThen (replaceKeyExpressions E seg net
                                   (rev keyExpression @ seen)
                                   (drop (length keyExpression) rest) st1)
                          (\<lambda>(out, st'). Inr (key @ out, st')))))"
  by pat_completeness auto
termination
  by (relation "measure (\<lambda>(E, seg, net, seen, rest, st). length rest)") auto

text \<open>
  \<^verbatim>\<open>new Set(pubkeys).size\<close> counts the distinct references among the values of the map
  (line 195 names them \<^verbatim>\<open>pubkeys\<close>, they are the KeyExpression objects).
\<close>

definition expandMiniscript ::
  "env \<Rightarrow> string \<Rightarrow> bool \<Rightarrow> network \<Rightarrow> error + (string \<times> ExpansionMap)" where
  "expandMiniscript E ms seg net =
     andThen (replaceKeyExpressions E seg net [] ms (0, []))
       (\<lambda>(em, n, emap).
          let pubkeys = map snd emap in
          if length (remdups (map ident pubkeys)) \<noteq> length pubkeys
          then Inl DuplicatePubkey
          else Inr (em, emap))"

subsection \<open>substituteAsm (lines 211-250) and miniscript2Script (lines 253-274)\<close>

fun substituteKeys :: "env \<Rightarrow> ExpansionMap \<Rightarrow> string \<Rightarrow> error + string" where
  "substituteKeys E [] accAsm = Inr accAsm"
| "substituteKeys E ((key, ke) # m) accAsm =
     (let pk = pubkey (deref ke) in
      if \<not> truthy_buffer pk then Inl InvalidExpansionMap
      else substituteKeys E m
             (replaceAll (''<HASH160('' @ key @ '')>'') (''<'' @ toHex (hash160 E pk) @ ''>'')
               (replaceAll (''<'' @ key @ ''>'') (''<'' @ toHex pk @ ''>'') accAsm)))"

text \<open>White space (\<^verbatim>\<open>\s\<close> and \<^verbatim>\<open>trim\<close>) among the characters below 256, and the
  characters \<^verbatim>\<open>\d\<close> and \<^verbatim>\<open>\w\<close> stand for.\<close>

definition isSpace :: "char \<Rightarrow> bool" where
  "isSpace c = (c \<in> set [CHR 0x09, CHR 0x0A, CHR 0x0B, CHR 0x0C, CHR 0x0D, CHR 0x20, CHR 0xA0])"

definition isDigit :: "char \<Rightarrow> bool" where
  "isDigit c = (c \<in> set ''0123456789'')"

definition isWord :: "char \<Rightarrow> bool" where
  "isWord c =
     (c \<in> set ''0123456789_abcdefghijklmnopqrstuvwxyzABCDEFGHIJKLMNOPQRSTUVWXYZ'')"

definition trim :: "string \<Rightarrow> string" where
  "trim s = rev (dropWhile isSpace (rev (dropWhile isSpace s)))"

text \<open>\<^verbatim>\<open>replace(/\s+/g, ' ')\<close>.\<close>

function collapseSpaces :: "string \<Rightarrow> string" where
  "collapseSpaces [] = []"
| "collapseSpaces (c # cs) =
     (if isSpace c then CHR '' '' # collapseSpaces (dropWhile isSpace cs)
      else c # collapseSpaces cs)"
  by pat_completeness auto
termination
  by (relation "measure length") (auto simp: less_Suc_eq_le length_dropWhile_le)

text \<open>
  \<^verbatim>\<open>replace(/(?<![<])\b\d+\b(?![>])/g, num => numberEncodeAsm(Number(num)))\<close>. The
  expression matches a maximal run of digits that starts the string or follows a
  character that is neither a word character nor \<^verbatim>\<open><\<close>, and that ends the string or
  is followed by a character that is neither a word character nor \<^verbatim>\<open>>\<close>.
  \<open>matchNumber prev s\<close> is the match at the start of \<open>s\<close>, if there is one; \<open>prev\<close>
  is the character in front of \<open>s\<close>.
\<close>

definition matchNumber :: "char option \<Rightarrow> string \<Rightarrow> string option" where
  "matchNumber prev s =
     (case s of
        [] \<Rightarrow> None
      | c # cs \<Rightarrow>
          if \<not> isDigit c then None
          else if \<not> (case prev of None \<Rightarrow> True | Some q \<Rightarrow> \<not> isWord q \<and> q \<noteq> CHR ''<'')
          then None
          else if \<not> (case dropWhile isDigit cs of
                         [] \<Rightarrow> True
                       | a # _ \<Rightarrow> \<not> isWord a \<and> a \<noteq> CHR ''>'')
          then None
          else Some (c # takeWhile isDigit cs))"

function encodeNumbers :: "env \<Rightarrow> char option \<Rightarrow> string \<Rightarrow> string" where
  "encodeNumbers E prev [] = []"
| "encodeNumbers E prev (c # cs) =
     (case matchNumber prev (c # cs) of
        None \<Rightarrow> c # encodeNumbers E (Some c) cs
      | Some num \<Rightarrow>
          numberEncodeAsm E num @ encodeNumbers E (Some (last num)) (dropWhile isDigit cs))"
  by pat_completeness auto
termination
  by (relation "measure (\<lambda>(E, prev, s). length s)")
     (auto simp: less_Suc_eq_le length_dropWhile_le)

definition substituteAsm :: "env \<Rightarrow> string \<Rightarrow> ExpansionMap \<Rightarrow> error + string" where
  "substituteAsm E expandedAsm emap =
     andThen (substituteKeys E emap expandedAsm)
       (\<lambda>a. Inr (filter (\<lambda>c. c \<noteq> CHR ''<'' \<and> c \<noteq> CHR ''>'')
                   (encodeNumbers E None (collapseSpaces (trim a)))))"

definition miniscript2Script :: "env \<Rightarrow> string \<Rightarrow> bool \<Rightarrow> network \<Rightarrow> error + bytes" where
  "miniscript2Script E ms seg net =
     andThen (expandMiniscript E ms seg net)
       (\<lambda>(em, emap).
          let compiled = compileMiniscript E em in
          if issane compiled \<noteq> True then Inl InsaneMiniscript
          else andThen (substituteAsm E (compiled_asm compiled) emap)
                 (\<lambda>a. case fromASM E a of None \<Rightarrow> Inl AsmError | Some b \<Rightarrow> Inr b))"

text \<open>countNonPushOnlyOPs (lines 157-161); \<open>OP_16\<close> is the opcode 96.\<close>

definition OP_16 :: nat where
  "OP_16 = 96"

fun chunkGreater :: "env \<Rightarrow> chunk \<Rightarrow> nat \<Rightarrow> bool" where
  "chunkGreater E (Opcode k) n = (n < k)"
| "chunkGreater E (PushData b) n = bufferGreater E b n"

definition countNonPushOnlyOPs :: "env \<Rightarrow> bytes \<Rightarrow> error + nat" where
  "countNonPushOnlyOPs E script =
     (case decompile E script of
        None \<Rightarrow> Inl CouldNotDecompile
      | Some d \<Rightarrow> Inr (length (filter (\<lambda>op. chunkGreater E op OP_16) d)))"


subsection \<open>satisfyMiniscript (lines 287-375)\<close>

text \<open>How a template literal prints a string that may be \<^verbatim>\<open>undefined\<close>.\<close>

fun interp :: "string option \<Rightarrow> string" where
  "interp None = ''undefined''"
| "interp (Some s) = s"

text \<open>Lines 315-319: one entry per preimage.\<close>

definition preimageMap :: "Preimage list \<Rightarrow> (string \<times> string) list" where
  "preimageMap pre =
     foldl (\<lambda>m p. assign m (''<'' @ replaceFirst ''('' ''_preimage('' (digest p) @ ''>'')
                            (''<'' @ preimage p @ ''>''))
       [] pre"

text \<open>
  Lines 326-328: \<^verbatim>\<open>Object.keys(expansionMap).find(...)\<close>, the first variable whose
  pubkey prints as \<open>pubkeyHex\<close>, or \<^verbatim>\<open>undefined\<close>.
\<close>

definition findKeyExpression :: "ExpansionMap \<Rightarrow> string \<Rightarrow> string option" where
  "findKeyExpression emap pubkeyHex =
     map_option fst (List.find (\<lambda>(k, ke). toHex (pubkey (deref ke)) = pubkeyHex) emap)"

text \<open>Lines 323-331: one entry per signature.\<close>

definition expandedSignatureMap ::
  "ExpansionMap \<Rightarrow> PartialSig list \<Rightarrow> (string \<times> string) list" where
  "expandedSignatureMap emap sigs =
     foldl (\<lambda>m sg.
              let pubkeyHex = toHex (sig_pubkey sg);
                  keyExpression = findKeyExpression emap pubkeyHex
              in assign m (''<sig('' @ interp keyExpression @ '')>'')
                          (''<'' @ toHex (signature sg) @ ''>''))
       [] sigs"

text \<open>Line 332: \<^verbatim>\<open>{ ...preimageMap, ...expandedSignatureMap }\<close>.\<close>

definition expandedKnownsMap ::
  "ExpansionMap \<Rightarrow> PartialSig list \<Rightarrow> Preimage list \<Rightarrow> (string \<times> string) list" where
  "expandedKnownsMap emap sigs pre =
     foldl (\<lambda>m (k, v). assign m k v) [] (preimageMap pre @ expandedSignatureMap emap sigs)"

text \<open>
  Lines 337-354: the choice of the solution. The satisfier returns an array of objects,
  so the guard of line 337 fails exactly on the empty array.
\<close>

definition selectSat :: "Sat list \<Rightarrow> Constraints option \<Rightarrow> error + Sat" where
  "selectSat nonMalleableSats constraints =
     (case nonMalleableSats of
        [] \<Rightarrow> Inl Unresolvable
      | first # _ \<Rightarrow>
          (case constraints of
             None \<Rightarrow> Inr first
           | Some c \<Rightarrow>
               (case List.find (\<lambda>nonMalleableSat.
                                  nSequence nonMalleableSat = c_nSequence c
                                  \<and> nLockTime nonMalleableSat = c_nLockTime c)
                       nonMalleableSats of
                  None \<Rightarrow> Inl ConstraintsUnmet
                | Some sat \<Rightarrow> Inr sat)))"

text \<open>Lines 360-365: the knowns are put into the ASM of the solution, in order.\<close>

fun substituteKnowns :: "(string \<times> string) list \<Rightarrow> string \<Rightarrow> error + string" where
  "substituteKnowns [] expandedAsm = Inr expandedAsm"
| "substituteKnowns ((search, repl) # m) expandedAsm =
     (if repl = [] \<or> repl = ''<>'' then Inl InvalidKnownsMap
      else substituteKnowns m (replaceAll search repl expandedAsm))"

text \<open>Lines 356-374: from the chosen solution to the result.\<close>

definition materialize ::
  "env \<Rightarrow> ExpansionMap \<Rightarrow> (string \<times> string) list \<Rightarrow> Sat \<Rightarrow> error + Satisfaction" where
  "materialize E emap knownsMap sat =
     andThen (substituteKnowns knownsMap (asm sat))
       (\<lambda>expandedAsm.
          andThen (substituteAsm E expandedAsm emap)
            (\<lambda>a. case fromASM E a of
                    None \<Rightarrow> Inl AsmError
                  | Some b \<Rightarrow>
                      Inr \<lparr>scriptSatisfaction = b,
                           r_nLockTime = nLockTime sat,
                           r_nSequence = nSequence sat\<rparr>))"

definition satisfyMiniscript ::
  "env \<Rightarrow> string \<Rightarrow> bool \<Rightarrow> PartialSig list \<Rightarrow> Preimage list \<Rightarrow> Constraints option
   \<Rightarrow> network \<Rightarrow> error + Satisfaction" where
  "satisfyMiniscript E ms seg sigs pre constraints net =
     andThen (expandMiniscript E ms seg net)
       (\<lambda>(em, emap).
          let knownsMap = expandedKnownsMap emap sigs pre;
              knowns = map fst knownsMap;
              nonMalleableSats = satisfier E em knowns
          in andThen (selectSat nonMalleableSats constraints)
               (\<lambda>sat. materialize E emap knownsMap sat))"

subsection \<open>The constructor of Descriptor (lines 405-741)\<close>

definition MAX_SCRIPT_ELEMENT_SIZE :: nat where
  "MAX_SCRIPT_ELEMENT_SIZE = 520"

definition MAX_STANDARD_P2WSH_SCRIPT_SIZE :: nat where
  "MAX_STANDARD_P2WSH_SCRIPT_SIZE = 3600"

definition MAX_OPS_PER_SCRIPT :: nat where
  "MAX_OPS_PER_SCRIPT = 201"

text \<open>\<^verbatim>\<open>isolatedExpression.match(RE.reKeyExp)?.[0]\<close>: the leftmost match.\<close>

fun firstKeyExp :: "env \<Rightarrow> string \<Rightarrow> string \<Rightarrow> string option" where
  "firstKeyExp E seen rest =
     (case reKeyExp E seen rest of
        Some n \<Rightarrow> Some (take n rest)
      | None \<Rightarrow>
          (case rest of
             [] \<Rightarrow> None
           | c # cs \<Rightarrow> firstKeyExp E (c # seen) cs))"

definition matchKeyExp :: "env \<Rightarrow> string \<Rightarrow> string option" where
  "matchKeyExp E s = firstKeyExp E [] s"

definition mkPayment :: "env \<Rightarrow> network \<Rightarrow> payment \<Rightarrow> error + payment" where
  "mkPayment E net p = (if payment_valid E p net then Inr p else Inl PaymentError)"

text \<open>The fields as the class declares them, after lines 422-423.\<close>

definition newDescriptor :: "payment \<Rightarrow> network \<Rightarrow> Preimage list \<Rightarrow> Descriptor" where
  "newDescriptor p net pre =
     \<lparr>d_payment = p, d_preimages = pre, d_miniscript = None, d_witnessScript = None,
      d_isSegwit = None, d_expandedExpression = None, d_expandedMiniscript = None,
      d_expansionMap = None, d_network = net, d_nLockTime = None, d_nSequence = None\<rparr>"

text \<open>
  Lines 439-466, \<^verbatim>\<open>addr(ADDR)\<close>: the five payment templates are tried in turn, each in
  a \<^verbatim>\<open>try\<close> of its own, and the last one that accepts the output script stays.
\<close>

definition addrBranch ::
  "env \<Rightarrow> string \<Rightarrow> network \<Rightarrow> Preimage list \<Rightarrow> error + Descriptor" where
  "addrBranch E matchedAddress net pre =
     (case toOutputScript E matchedAddress net of
        None \<Rightarrow> Inl InvalidAddress
      | Some output \<Rightarrow>
          (case foldl (\<lambda>p k. if payment_valid E (FromOutput k output) net
                              then Some (FromOutput k output) else p)
                  None [KP2PKH, KP2SH, KP2WPKH, KP2WSH, KP2TR] of
             None \<Rightarrow> Inl InvalidAddress
           | Some p \<Rightarrow> Inr (newDescriptor p net pre)))"

text \<open>
  Lines 468-539: the four shapes with one key, \<^verbatim>\<open>pk\<close>, \<^verbatim>\<open>pkh\<close>, \<^verbatim>\<open>sh(wpkh\<close> and
  \<^verbatim>\<open>wpkh\<close>, differ in the text around the key, in the segwit flag and in the payment.
\<close>

definition keyBranch ::
  "env \<Rightarrow> string \<Rightarrow> string \<Rightarrow> bool \<Rightarrow> (bytes \<Rightarrow> error + payment)
   \<Rightarrow> string option \<Rightarrow> string \<Rightarrow> network \<Rightarrow> Preimage list \<Rightarrow> error + Descriptor" where
  "keyBranch E opening closing seg pay keyExpression isolatedExpression net pre =
     (if isolatedExpression \<noteq> opening @ interp keyExpression @ closing
      then Inl InvalidExpression
      else if \<not> truthy keyExpression then Inl KeyExpressionNotExtracted
      else andThen (parseKeyExpression E (interp keyExpression) net seg)
             (\<lambda>ke. andThen (pay (pubkey ke))
                (\<lambda>p. Inr ((newDescriptor p net pre)
                            \<lparr>d_isSegwit := Some seg,
                             d_expandedExpression := Some (opening @ ''@0'' @ closing),
                             d_expansionMap := Some [(''@0'', Obj 0 ke)]\<rparr>))))"

text \<open>
  Line 597: \<^verbatim>\<open>miniscript.search(/^(pk\(|pkh\(|...)/) !== 0\<close> is false exactly when the
  miniscript starts with one of the eight keywords.
\<close>

definition templateKeywords :: "string list" where
  "templateKeywords =
     [''pk('', ''pkh('', ''wpkh('', ''combo('', ''multi('', ''sortedmulti('',
      ''multi_a('', ''sortedmulti_a('']"

definition startsWithTemplate :: "string \<Rightarrow> bool" where
  "startsWithTemplate ms = list_ex (startsWith ms) templateKeywords"

text \<open>
  Lines 541-671: the three shapes with a miniscript differ in the text around it, in
  the segwit flag, in the size limit and its error, in whether the script is kept as
  witness script, and in the payment. \<open>gate\<close> is the test of lines 591-603, which only
  \<^verbatim>\<open>sh(miniscript)\<close> has.
\<close>

definition miniscriptBranch ::
  "env \<Rightarrow> string \<Rightarrow> string \<Rightarrow> bool \<Rightarrow> bool \<Rightarrow> nat \<Rightarrow> error \<Rightarrow> bool
   \<Rightarrow> (bytes \<Rightarrow> error + payment)
   \<Rightarrow> string option \<Rightarrow> network \<Rightarrow> Preimage list \<Rightarrow> error + Descriptor" where
  "miniscriptBranch E opening closing seg gate limit tooLarge keepWitness pay
                    captured net pre =
     (if \<not> truthy captured then Inl NoMiniscriptFound
      else
        let ms = interp captured in
        if gate \<and> \<not> startsWithTemplate ms then Inl MiniscriptInP2SHDisallowed
        else
          andThen (expandMiniscript E ms seg net)
            (\<lambda>(em, emap).
               andThen (miniscript2Script E ms seg net)
                 (\<lambda>script.
                    if limit < length script then Inl tooLarge
                    else
                      andThen (countNonPushOnlyOPs E script)
                        (\<lambda>nonPushOnlyOps.
                           if MAX_OPS_PER_SCRIPT < nonPushOnlyOps then Inl TooManyOps
                           else
                             andThen (pay script)
                               (\<lambda>p. Inr ((newDescriptor p net pre)
                                           \<lparr>d_miniscript := Some ms,
                                            d_witnessScript :=
                                              (if keepWitness then Some script else None),
                                            d_isSegwit := Some seg,
                                            d_expandedExpression :=
                                              Some (opening @ em @ closing),
                                            d_expandedMiniscript := Some em,
                                            d_expansionMap := Some emap\<rparr>))))))"

text \<open>
  Lines 429-674: isolation and dispatch. A \<open>re...MiniscriptAnchored\<close> of the
  environment is \<open>Some c\<close> when the expression matches, with the text \<open>c\<close> of capture
  group 1.
\<close>

definition dispatch ::
  "env \<Rightarrow> string \<Rightarrow> jsnumber \<Rightarrow> bool \<Rightarrow> bool \<Rightarrow> network \<Rightarrow> Preimage list
   \<Rightarrow> error + Descriptor" where
  "dispatch E expression index checksumRequired allowMiniscriptInP2SH net pre =
     andThen (isolate E expression checksumRequired index)
       (\<lambda>isolatedExpression.
          let matchedAddress = reAddrAnchored E isolatedExpression;
              keyExpression = matchKeyExp E isolatedExpression
          in
          if truthy matchedAddress then addrBranch E (interp matchedAddress) net pre
          else if rePkAnchored E isolatedExpression then
            keyBranch E ''pk('' '')'' False (\<lambda>pk. mkPayment E net (P2PK pk))
              keyExpression isolatedExpression net pre
          else if rePkhAnchored E isolatedExpression then
            keyBranch E ''pkh('' '')'' False (\<lambda>pk. mkPayment E net (P2PKH pk))
              keyExpression isolatedExpression net pre
          else if reShWpkhAnchored E isolatedExpression then
            keyBranch E ''sh(wpkh('' ''))'' True
              (\<lambda>pk. andThen (mkPayment E net (P2WPKH pk)) (\<lambda>r. mkPayment E net (P2SH r)))
              keyExpression isolatedExpression net pre
          else if reWpkhAnchored E isolatedExpression then
            keyBranch E ''wpkh('' '')'' True (\<lambda>pk. mkPayment E net (P2WPKH pk))
              keyExpression isolatedExpression net pre
          else if reShWshMiniscriptAnchored E isolatedExpression \<noteq> None then
            miniscriptBranch E ''sh(wsh('' ''))'' True False
              MAX_STANDARD_P2WSH_SCRIPT_SIZE ScriptTooLarge True
              (\<lambda>script. andThen (mkPayment E net (P2WSH (Redeem script)))
                           (\<lambda>r. mkPayment E net (P2SH r)))
              (reShWshMiniscriptAnchored E isolatedExpression) net pre
          else if reShMiniscriptAnchored E isolatedExpression \<noteq> None then
            miniscriptBranch E ''sh('' '')'' False (allowMiniscriptInP2SH = False)
              MAX_SCRIPT_ELEMENT_SIZE P2SHScriptTooLarge False
              (\<lambda>script. mkPayment E net (P2SH (Redeem script)))
              (reShMiniscriptAnchored E isolatedExpression) net pre
          else if reWshMiniscriptAnchored E isolatedExpression \<noteq> None then
            miniscriptBranch E ''wsh('' '')'' True False
              MAX_STANDARD_P2WSH_SCRIPT_SIZE ScriptTooLarge True
              (\<lambda>script. mkPayment E net (P2WSH (Redeem script)))
              (reWshMiniscriptAnchored E isolatedExpression) net pre
          else Inl CouldNotParse)"

text \<open>Lines 726-730: a signature of 64 zero bytes for every signer.\<close>

fun fakeSignatures ::
  "env \<Rightarrow> string list \<Rightarrow> network \<Rightarrow> bool \<Rightarrow> error + PartialSig list" where
  "fakeSignatures E [] net seg = Inr []"
| "fakeSignatures E (keyExpression # ks) net seg =
     andThen (parseKeyExpression E keyExpression net seg)
       (\<lambda>ke. andThen (fakeSignatures E ks net seg)
          (\<lambda>sigs. Inr (\<lparr>sig_pubkey = pubkey ke, signature = replicate 64 0\<rparr> # sigs)))"

text \<open>Lines 712-723: the signers, all the pubkeys of the miniscript by default.\<close>

definition signerSet ::
  "env \<Rightarrow> string \<Rightarrow> bool \<Rightarrow> network \<Rightarrow> string list option \<Rightarrow> error + string list" where
  "signerSet E ms seg net signersKeyExpressions =
     (case signersKeyExpressions of
        Some ks \<Rightarrow> Inr ks
      | None \<Rightarrow>
          andThen (expandMiniscript E ms seg net)
            (\<lambda>(em, emap). Inr (map (\<lambda>ke. toHex (pubkey (deref ke))) (map snd emap))))"

text \<open>Lines 704-740: the satisfier is run once with the fake signatures.\<close>

definition probe ::
  "env \<Rightarrow> Descriptor \<Rightarrow> Preimage list \<Rightarrow> string list option \<Rightarrow> error + Descriptor" where
  "probe E d pre signersKeyExpressions =
     (if truthy (d_miniscript d) then
        (case d_isSegwit d of
           None \<Rightarrow> Inl SegwitUndetermined
         | Some seg \<Rightarrow>
             andThen (signerSet E (interp (d_miniscript d)) seg (d_network d)
                        signersKeyExpressions)
               (\<lambda>ks. andThen (fakeSignatures E ks (d_network d) seg)
                  (\<lambda>sigs.
                     andThen (satisfyMiniscript E (interp (d_miniscript d)) seg sigs pre
                                None (d_network d))
                       (\<lambda>r. Inr (d\<lparr>d_nLockTime := r_nLockTime r,
                                    d_nSequence := r_nSequence r\<rparr>)))))
      else Inr d)"

definition Descriptor_constructor ::
  "env \<Rightarrow> string \<Rightarrow> jsnumber \<Rightarrow> bool \<Rightarrow> bool \<Rightarrow> network \<Rightarrow> Preimage list
   \<Rightarrow> string list option \<Rightarrow> error + Descriptor" where
  "Descriptor_constructor E expression index checksumRequired allowMiniscriptInP2SH net pre
                          signersKeyExpressions =
     andThen (dispatch E expression index checksumRequired allowMiniscriptInP2SH net pre)
       (\<lambda>d. probe E d pre signersKeyExpressions)"

subsection \<open>The methods of Descriptor (lines 742-871)\<close>

definition getAddress :: "env \<Rightarrow> Descriptor \<Rightarrow> error + string" where
  "getAddress E d =
     (if \<not> truthy (payment_address E (d_payment d)) then Inl NoAddress
      else Inr (interp (payment_address E (d_payment d))))"

definition getScriptPubKey :: "env \<Rightarrow> Descriptor \<Rightarrow> error + bytes" where
  "getScriptPubKey E d =
     (case payment_output E (d_payment d) of
        None \<Rightarrow> Inl NoOutput
      | Some output \<Rightarrow> Inr output)"

definition getScriptSatisfaction ::
  "env \<Rightarrow> Descriptor \<Rightarrow> PartialSig list \<Rightarrow> error + bytes" where
  "getScriptSatisfaction E d signatures =
     (if \<not> truthy (d_miniscript d) then Inl NoMiniscript
      else case d_isSegwit d of
        None \<Rightarrow> Inl SegwitUndetermined
      | Some seg \<Rightarrow>
          andThen (satisfyMiniscript E (interp (d_miniscript d)) seg signatures
                     (d_preimages d)
                     (Some \<lparr>c_nLockTime = d_nLockTime d, c_nSequence = d_nSequence d\<rparr>)
                     (d_network d))
            (\<lambda>r. if \<not> truthy_buffer (scriptSatisfaction r) then Inl NoSatisfaction
                  else Inr (scriptSatisfaction r)))"

text \<open>
  updatePsbt changes the Psbt of the caller as it goes, so the Psbt is returned with
  the error too: a lock time set at line 813 stays when a later line throws.
\<close>

definition bip32Derivations :: "ExpansionMap \<Rightarrow> Bip32Derivation list" where
  "bip32Derivations emap =
     map (\<lambda>ke. \<lparr>bd_masterFingerprint = the (masterFingerprint ke),
                 bd_pubkey = pubkey ke,
                 bd_path = interp (path ke)\<rparr>)
       (filter (\<lambda>ke. truthy_buffer (pubkey ke) \<and> masterFingerprint ke \<noteq> None
                      \<and> truthy (path ke))
          (map (\<lambda>kv. deref (snd kv)) emap))"

definition updatePsbt ::
  "env \<Rightarrow> Descriptor \<Rightarrow> string \<Rightarrow> int \<Rightarrow> Psbt \<Rightarrow> (error + nat) \<times> Psbt" where
  "updatePsbt E d txHex vout psbt =
     (case Transaction_fromHex E txHex of
        None \<Rightarrow> (Inl TxParseError, psbt)
      | Some tx \<Rightarrow>
          if \<not> (0 \<le> vout \<and> nat vout < length (outs tx)) then (Inl NoSuchOutput, psbt)
          else
            let out = outs tx ! nat vout in
            if d_nLockTime d \<noteq> None \<and> locktime psbt \<noteq> Some 0 \<and> locktime psbt \<noteq> None
            then (Inl LocktimeConflict, psbt)
            else
              let psbt1 = (case d_nLockTime d of
                             None \<Rightarrow> psbt
                           | Some lt \<Rightarrow> setLocktime psbt lt);
                  inputSequence =
                    (case d_nSequence d of
                       Some sq \<Rightarrow> Some sq
                     | None \<Rightarrow>
                         (case d_nLockTime d of
                            Some lt \<Rightarrow> Some 0xfffffffe
                          | None \<Rightarrow> None));
                  input0 = \<lparr>in_hash = getHash tx, in_index = vout,
                            nonWitnessUtxo = toBuffer tx, bip32Derivation = None,
                            witnessUtxo = None, in_witnessScript = None,
                            in_sequence = None, partialSig = None\<rparr>;
                  input1 =
                    (case d_expansionMap d of
                       None \<Rightarrow> input0
                     | Some emap \<Rightarrow>
                         if bip32Derivations emap \<noteq> []
                         then input0\<lparr>bip32Derivation := Some (bip32Derivations emap)\<rparr>
                         else input0)
              in
              case (if d_isSegwit d = Some True
                    then andThen (getScriptPubKey E d)
                           (\<lambda>spk. Inr (input1\<lparr>witnessUtxo :=
                                     Some \<lparr>wu_script = spk, wu_value = out_value out\<rparr>\<rparr>))
                    else Inr input1) of
                Inl e \<Rightarrow> (Inl e, psbt1)
              | Inr input2 \<Rightarrow>
                  let input3 = (case d_witnessScript d of
                                  None \<Rightarrow> input2
                                | Some ws \<Rightarrow> input2\<lparr>in_witnessScript := Some ws\<rparr>);
                      input4 = (case inputSequence of
                                  None \<Rightarrow> input3
                                | Some sq \<Rightarrow> input3\<lparr>in_sequence := Some sq\<rparr>);
                      psbt2 = addInput psbt1 input4
                  in (Inr (length (inputs psbt2) - 1), psbt2))"

definition finalizePsbtInput :: "env \<Rightarrow> Descriptor \<Rightarrow> nat \<Rightarrow> Psbt \<Rightarrow> error + Psbt" where
  "finalizePsbtInput E d index psbt =
     (case (if index < length (inputs psbt) then partialSig (inputs psbt ! index)
            else None) of
        None \<Rightarrow> Inl NoSignatures
      | Some signatures \<Rightarrow>
          andThen (getScriptSatisfaction E d signatures)
            (\<lambda>scriptSatisfaction.
               let f = (if \<not> truthy_buffer scriptSatisfaction then DefaultFinalizer
                        else SatisfactionFinalizer scriptSatisfaction (d_network d))
               in case psbt_finalizeInput E psbt index f of
                    None \<Rightarrow> Inl FinalizeError
                  | Some psbt' \<Rightarrow> Inr psbt'))"


subsection \<open>A small environment for the examples\<close>

text \<open>
  The examples below need libraries that compute. In this environment a key expression
  is a compressed public key in hexadecimal, the checksum of every descriptor is
  \<^verbatim>\<open>qqqqqqqq\<close>, the miniscript engine knows the three fragments of the table
  \<open>engine\<close> (the expanded miniscript, its ASM, and its solutions with the knowns each
  one needs), and scripts are assembled with one length byte in front of pushed data.
  \<open>K1\<close> and \<open>K2\<close> are the public keys of the secret keys 2 and 1.
\<close>

definition hexval :: "char \<Rightarrow> nat option" where
  "hexval c =
     map_of [(CHR ''0'', 0), (CHR ''1'', 1), (CHR ''2'', 2), (CHR ''3'', 3), (CHR ''4'', 4),
             (CHR ''5'', 5), (CHR ''6'', 6), (CHR ''7'', 7), (CHR ''8'', 8), (CHR ''9'', 9),
             (CHR ''a'', 10), (CHR ''b'', 11), (CHR ''c'', 12), (CHR ''d'', 13),
             (CHR ''e'', 14), (CHR ''f'', 15), (CHR ''A'', 10), (CHR ''B'', 11),
             (CHR ''C'', 12), (CHR ''D'', 13), (CHR ''E'', 14), (CHR ''F'', 15)] c"

fun fromHex :: "string \<Rightarrow> bytes option" where
  "fromHex [] = Some []"
| "fromHex [c] = None"
| "fromHex (c # d # r) =
     (case (hexval c, hexval d, fromHex r) of
        (Some h, Some l, Some bs) \<Rightarrow> Some (of_nat (16 * h + l) # bs)
      | _ \<Rightarrow> None)"

definition K1 :: string where
  "K1 = ''02c6047f9441ed7d6d3045406e95c07cd85c778e4b8cef3ca7abac09b95c709ee5''"

definition K1_upper :: string where
  "K1_upper = ''02C6047F9441ED7D6D3045406E95C07CD85C778E4B8CEF3CA7ABAC09B95C709EE5''"

definition pubkeyOf :: "string \<Rightarrow> bytes" where
  "pubkeyOf k = (case fromHex k of None \<Rightarrow> [] | Some b \<Rightarrow> b)"

definition K2 :: string where
  "K2 = ''0279be667ef9dcbbac55a06295ce870b07029bfcdb2dce28d959f2815b16f81798''"

definition isKey :: "string \<Rightarrow> bool" where
  "isKey k =
     (if startsWith k ''02'' \<or> startsWith k ''03''
      then (if length k = 66 then list_all (\<lambda>c. hexval c \<noteq> None) k else False)
      else False)"

definition wrapped :: "string \<Rightarrow> string \<Rightarrow> string \<Rightarrow> string option" where
  "wrapped opening closing s =
     (if length opening + length closing \<le> length s \<and> startsWith s opening
         \<and> startsWith (rev s) (rev closing)
      then Some (take (length s - length opening - length closing) (drop (length opening) s))
      else None)"

definition wrappedKey :: "string \<Rightarrow> string \<Rightarrow> string \<Rightarrow> bool" where
  "wrappedKey opening closing s =
     (case wrapped opening closing s of None \<Rightarrow> False | Some k \<Rightarrow> isKey k)"

fun tokens :: "string \<Rightarrow> string \<Rightarrow> string list" where
  "tokens cur [] = (if cur = [] then [] else [rev cur])"
| "tokens cur (c # cs) =
     (if c = CHR '' '' then (if cur = [] then tokens [] cs else rev cur # tokens [] cs)
      else tokens (c # cur) cs)"

definition opcodes :: "(string \<times> nat) list" where
  "opcodes = [(''OP_CHECKSIG'', 172), (''OP_CHECKSIGVERIFY'', 173),
              (''OP_CHECKSEQUENCEVERIFY'', 178)]"

fun assemble :: "string list \<Rightarrow> bytes option" where
  "assemble [] = Some []"
| "assemble (t # ts) =
     (case (case map_of opcodes t of
              Some n \<Rightarrow> Some [of_nat n]
            | None \<Rightarrow> map_option (\<lambda>b. of_nat (length b) # b) (fromHex t),
            assemble ts) of
        (Some a, Some b) \<Rightarrow> Some (a @ b)
      | _ \<Rightarrow> None)"

function disassemble :: "bytes \<Rightarrow> chunk list option" where
  "disassemble [] = Some []"
| "disassemble (b # bs) =
     (let n = unat b in
      if 1 \<le> n \<and> n \<le> 75 then
        (if length bs < n then None
         else map_option (\<lambda>r. PushData (take n bs) # r) (disassemble (drop n bs)))
      else map_option (\<lambda>r. Opcode n # r) (disassemble bs))"
  by pat_completeness auto
termination
  by (relation "measure length") auto

definition engine :: "(string \<times> string \<times> (string list \<times> Sat) list) list" where
  "engine =
     [(''pk(@0)'', ''<@0> OP_CHECKSIG'',
         [([''<sig(@0)>''], \<lparr>asm = ''<sig(@0)>'', nLockTime = None, nSequence = None\<rparr>)]),
      (''and_v(v:pk(@0),older(144))'', ''<@0> OP_CHECKSIGVERIFY 144 OP_CHECKSEQUENCEVERIFY'',
         [([''<sig(@0)>''], \<lparr>asm = ''<sig(@0)>'', nLockTime = None, nSequence = Some 144\<rparr>)]),
      (''and_v(v:pk(@0),pk(@1))'', ''<@0> OP_CHECKSIGVERIFY <@1> OP_CHECKSIG'',
         [([''<sig(@0)>'', ''<sig(@1)>''],
           \<lparr>asm = ''<sig(@1)> <sig(@0)>'', nLockTime = None, nSequence = None\<rparr>)])]"

definition tiny_checksum :: "string \<Rightarrow> string" where
  "tiny_checksum s = ''qqqqqqqq''"

definition tiny_reKeyExp :: "string \<Rightarrow> string \<Rightarrow> nat option" where
  "tiny_reKeyExp seen rest =
     (if startsWith rest ''02'' \<or> startsWith rest ''03''
      then (if isKey (take 66 rest) then Some 66 else None)
      else None)"

definition tiny_parseKey :: "string \<Rightarrow> network \<Rightarrow> bool \<Rightarrow> key_error + KeyExpression" where
  "tiny_parseKey k net seg =
     (if isKey k
      then Inr \<lparr>pubkey = pubkeyOf k, masterFingerprint = None, path = None\<rparr>
      else Inl InvalidKey)"

definition tiny_compile :: "string \<Rightarrow> Compiled" where
  "tiny_compile em =
     (case map_of engine em of
        None \<Rightarrow> \<lparr>compiled_asm = [], issane = False\<rparr>
      | Some (a, sols) \<Rightarrow> \<lparr>compiled_asm = a, issane = True\<rparr>)"

definition tiny_satisfier :: "string \<Rightarrow> string list \<Rightarrow> Sat list" where
  "tiny_satisfier em knowns =
     (case map_of engine em of
        None \<Rightarrow> []
      | Some (a, sols) \<Rightarrow>
          map snd (filter (\<lambda>sol. list_all (\<lambda>k. k \<in> set knowns) (fst sol)) sols))"

definition tiny_numberEncodeAsm :: "string \<Rightarrow> string" where
  "tiny_numberEncodeAsm num = (if num = ''144'' then ''9000'' else ''00'')"

definition tiny_exponentForm :: "int \<Rightarrow> string" where
  "tiny_exponentForm i = ''1e+21''"

definition tiny_bufferGreater :: "bytes \<Rightarrow> nat \<Rightarrow> bool" where
  "tiny_bufferGreater b n = False"

definition tiny_hash160 :: "bytes \<Rightarrow> bytes" where
  "tiny_hash160 b = take 20 b"

definition tiny_fromASM :: "string \<Rightarrow> bytes option" where
  "tiny_fromASM a = assemble (tokens [] a)"

definition tiny_toOutputScript :: "string \<Rightarrow> network \<Rightarrow> bytes option" where
  "tiny_toOutputScript a net = None"

definition tiny_payment_valid :: "payment \<Rightarrow> network \<Rightarrow> bool" where
  "tiny_payment_valid p net = True"

definition tiny_payment_output :: "payment \<Rightarrow> bytes option" where
  "tiny_payment_output p = (case p of Redeem s \<Rightarrow> Some s | _ \<Rightarrow> Some [])"

definition tiny_payment_address :: "payment \<Rightarrow> string option" where
  "tiny_payment_address p = None"

definition tiny_tx :: Transaction where
  "tiny_tx = \<lparr>outs = [\<lparr>out_script = [], out_value = 5000\<rparr>,
                       \<lparr>out_script = [], out_value = 7000\<rparr>],
              getHash = [1, 2, 3], toBuffer = [4, 5, 6]\<rparr>"

definition tiny_fromHex :: "string \<Rightarrow> Transaction option" where
  "tiny_fromHex h = (if h = ''040506'' then Some tiny_tx else None)"

definition tiny_finalizeInput :: "Psbt \<Rightarrow> nat \<Rightarrow> finalizer \<Rightarrow> Psbt option" where
  "tiny_finalizeInput psbt i f = Some psbt"

definition tiny_env :: env where
  "tiny_env =
     \<lparr>DescriptorChecksum = tiny_checksum,
      checksumCharset = ''qpzry9x8gf2tvdw0s3jn54khce6mua7l'',
      reKeyExp = tiny_reKeyExp,
      reAddrAnchored = wrapped ''addr('' '')'',
      rePkAnchored = wrappedKey ''pk('' '')'',
      rePkhAnchored = wrappedKey ''pkh('' '')'',
      reShWpkhAnchored = wrappedKey ''sh(wpkh('' ''))'',
      reWpkhAnchored = wrappedKey ''wpkh('' '')'',
      reShWshMiniscriptAnchored = wrapped ''sh(wsh('' ''))'',
      reShMiniscriptAnchored = wrapped ''sh('' '')'',
      reWshMiniscriptAnchored = wrapped ''wsh('' '')'',
      globalParseKeyExpression = tiny_parseKey,
      compileMiniscript = tiny_compile,
      satisfier = tiny_satisfier,
      numberEncodeAsm = tiny_numberEncodeAsm,
      exponentForm = tiny_exponentForm,
      bufferGreater = tiny_bufferGreater,
      hash160 = tiny_hash160,
      fromASM = tiny_fromASM,
      decompile = disassemble,
      toOutputScript = tiny_toOutputScript,
      payment_valid = tiny_payment_valid,
      payment_output = tiny_payment_output,
      payment_address = tiny_payment_address,
      Transaction_fromHex = tiny_fromHex,
      psbt_finalizeInput = tiny_finalizeInput\<rparr>"

text \<open>Inputs of the examples: a signature of 64 zero bytes by a key, the parsed key,
  two miniscripts, and a Psbt input that holds signatures.\<close>

definition sigBy :: "string \<Rightarrow> PartialSig" where
  "sigBy k = \<lparr>sig_pubkey = pubkeyOf k, signature = replicate 64 0\<rparr>"

definition keyOf :: "string \<Rightarrow> KeyExpression" where
  "keyOf k = \<lparr>pubkey = pubkeyOf k, masterFingerprint = None, path = None\<rparr>"

definition older144 :: string where
  "older144 = ''and_v(v:pk('' @ K1 @ ''),older(144))''"

definition pkK1 :: string where
  "pkK1 = ''pk('' @ K1 @ '')''"

definition signedInput :: "PartialSig list \<Rightarrow> PsbtInput" where
  "signedInput sigs =
     \<lparr>in_hash = [], in_index = 0, nonWitnessUtxo = [], bip32Derivation = None,
      witnessUtxo = None, in_witnessScript = None, in_sequence = None,
      partialSig = Some sigs\<rparr>"

section \<open>Properties\<close>

declare replaceKeyExpressions.simps [simp del]
declare replaceAllFrom.simps [simp del]
declare replaceFirstFrom.simps [simp del]
declare decimal.simps [simp del]
declare firstKeyExp.simps [simp del]
declare disassemble.simps [simp del]

lemma andThen_Inr_iff:
  "andThen m f = Inr y \<longleftrightarrow> (\<exists>x. m = Inr x \<and> f x = Inr y)"
  by (cases m) (simp_all add: andThen_def)

lemma andThen_Inl_iff:
  "andThen m f = Inl e \<longleftrightarrow> m = Inl e \<or> (\<exists>x. m = Inr x \<and> f x = Inl e)"
  by (cases m) (simp_all add: andThen_def)

lemma andThen_simps [simp]:
  "andThen (Inl e) f = Inl e"
  "andThen (Inr x) f = f x"
  by (simp_all add: andThen_def)

subsection \<open>expandMiniscript and the test for duplicate keys\<close>

text \<open>
  The references in the expansion map are pairwise different and below the allocation
  counter: every call of the key parser returns a new object.
\<close>

definition fresh_refs :: "nat \<times> ExpansionMap \<Rightarrow> bool" where
  "fresh_refs st =
     (distinct (map (\<lambda>kv. ident (snd kv)) (snd st))
      \<and> list_all (\<lambda>kv. ident (snd kv) < fst st) (snd st))"

lemma assign_member:
  "x \<in> set (assign m k v) \<Longrightarrow> x = (k, v) \<or> x \<in> set m"
  by (induction m) (auto split: if_splits)

lemma assign_refs:
  "set (map (\<lambda>kv. ident (snd kv)) (assign m k v))
   \<subseteq> insert (ident v) (set (map (\<lambda>kv. ident (snd kv)) m))"
  using assign_member [of _ m k v] by fastforce

lemma assign_distinct:
  "distinct (map (\<lambda>kv. ident (snd kv)) m) \<Longrightarrow>
   ident v \<notin> set (map (\<lambda>kv. ident (snd kv)) m) \<Longrightarrow>
   distinct (map (\<lambda>kv. ident (snd kv)) (assign m k v))"
proof (induction m)
  case Nil
  then show ?case by simp
next
  case (Cons a m)
  have "ident (snd a) \<notin> set (map (\<lambda>kv. ident (snd kv)) (assign m k v))"
    using Cons.prems assign_refs [of m k v] by auto
  with Cons show ?case by (cases a) auto
qed

lemma fresh_refs_alloc:
  assumes "fresh_refs (n, m)"
  shows "fresh_refs (Suc n, assign m k (Obj n ke))"
proof -
  have d: "distinct (map (\<lambda>kv. ident (snd kv)) m)"
    and b: "\<forall>kv \<in> set m. ident (snd kv) < n"
    using assms by (simp_all add: fresh_refs_def list_all_iff)
  have "n \<notin> set (map (\<lambda>kv. ident (snd kv)) m)"
    using b by auto
  then have 1: "distinct (map (\<lambda>kv. ident (snd kv)) (assign m k (Obj n ke)))"
    using d assign_distinct [of m "Obj n ke" k] by simp
  have "\<forall>i \<in> set (map (\<lambda>kv. ident (snd kv)) (assign m k (Obj n ke))). i < Suc n"
    using assign_refs [of m k "Obj n ke"] b by fastforce
  then have 2: "list_all (\<lambda>kv. ident (snd kv) < Suc n) (assign m k (Obj n ke))"
    by (simp add: list_all_iff)
  from 1 2 show ?thesis by (simp add: fresh_refs_def)
qed

lemma replaceKeyExpressions_fresh:
  "replaceKeyExpressions E seg net seen rest st = Inr (out, st') \<Longrightarrow> fresh_refs st \<Longrightarrow>
   fresh_refs st'"
proof (induction E seg net seen rest st arbitrary: out st'
       rule: replaceKeyExpressions.induct)
  case (1 E seg net seen rest st)
  note eq = "1.prems"(1) [unfolded replaceKeyExpressions.simps [of E seg net seen rest st]]
  show ?case
  proof (cases "reKeyExp E seen rest")
    case None
    show ?thesis
    proof (cases rest)
      case Nil
      with eq None "1.prems"(2) show ?thesis by simp
    next
      case (Cons c cs)
      with eq None obtain out1 where
        "replaceKeyExpressions E seg net (c # seen) cs st = Inr (out1, st')"
        by (auto simp: andThen_Inr_iff)
      with "1.IH"(1) [OF None Cons] "1.prems"(2) show ?thesis by blast
    qed
  next
    case (Some n)
    obtain a m where st: "st = (a, m)" by (cases st)
    show ?thesis
    proof (cases "parseKeyExpression E (take n rest) net seg")
      case (Inl e)
      with eq Some show ?thesis by (simp add: Let_def)
    next
      case (Inr ke)
      let ?key = "''@'' @ decimal (length (snd st))"
      let ?st1 = "(Suc (fst st), assign (snd st) ?key (Obj (fst st) ke))"
      have f1: "fresh_refs ?st1"
        using fresh_refs_alloc [of a m _ ke] "1.prems"(2) st by simp
      show ?thesis
      proof (cases "take n rest = []")
        case empty: True
        show ?thesis
        proof (cases rest)
          case Nil
          with eq Some Inr empty f1 show ?thesis by (auto simp: Let_def)
        next
          case (Cons c cs)
          with eq Some Inr empty obtain out1 where
            "replaceKeyExpressions E seg net (c # seen) cs ?st1 = Inr (out1, st')"
            by (auto simp: Let_def andThen_Inr_iff)
          with "1.IH"(2) [OF Some refl refl Inr refl empty Cons] f1
          show ?thesis by blast
        qed
      next
        case False
        with eq Some Inr obtain out1 where
          "replaceKeyExpressions E seg net (rev (take n rest) @ seen)
             (drop (length (take n rest)) rest) ?st1 = Inr (out1, st')"
          by (auto simp: Let_def andThen_Inr_iff)
        with "1.IH"(3) [OF Some refl refl Inr refl False] f1
        show ?thesis by blast
      qed
    qed
  qed
qed

lemma parseKeyExpression_error:
  "parseKeyExpression E k net seg = Inl e \<Longrightarrow> \<exists>ke. e = KeyError ke"
  by (auto simp: parseKeyExpression_def split: sum.splits)

lemma replaceKeyExpressions_error:
  "replaceKeyExpressions E seg net seen rest st = Inl e \<Longrightarrow> \<exists>ke. e = KeyError ke"
proof (induction E seg net seen rest st rule: replaceKeyExpressions.induct)
  case (1 E seg net seen rest st)
  note eq = "1.prems"(1) [unfolded replaceKeyExpressions.simps [of E seg net seen rest st]]
  show ?case
  proof (cases "reKeyExp E seen rest")
    case None
    show ?thesis
    proof (cases rest)
      case Nil
      with eq None show ?thesis by simp
    next
      case (Cons c cs)
      with eq None have
        "replaceKeyExpressions E seg net (c # seen) cs st = Inl e"
        by (auto simp: andThen_Inl_iff)
      with "1.IH"(1) [OF None Cons] show ?thesis by blast
    qed
  next
    case (Some n)
    show ?thesis
    proof (cases "parseKeyExpression E (take n rest) net seg")
      case (Inl e')
      with eq Some have "e' = e" by (simp add: Let_def)
      with Inl parseKeyExpression_error show ?thesis by blast
    next
      case (Inr ke)
      let ?key = "''@'' @ decimal (length (snd st))"
      let ?st1 = "(Suc (fst st), assign (snd st) ?key (Obj (fst st) ke))"
      show ?thesis
      proof (cases "take n rest = []")
        case empty: True
        show ?thesis
        proof (cases rest)
          case Nil
          with eq Some Inr empty show ?thesis by (auto simp: Let_def)
        next
          case (Cons c cs)
          with eq Some Inr empty have
            "replaceKeyExpressions E seg net (c # seen) cs ?st1 = Inl e"
            by (auto simp: Let_def andThen_Inl_iff)
          with "1.IH"(2) [OF Some refl refl Inr refl empty Cons]
          show ?thesis by blast
        qed
      next
        case False
        with eq Some Inr have
          "replaceKeyExpressions E seg net (rev (take n rest) @ seen)
             (drop (length (take n rest)) rest) ?st1 = Inl e"
          by (auto simp: Let_def andThen_Inl_iff)
        with "1.IH"(3) [OF Some refl refl Inr refl False]
        show ?thesis by blast
      qed
    qed
  qed
qed

lemma expandMiniscript_never_DuplicatePubkey:
  "expandMiniscript E ms seg net \<noteq> Inl DuplicatePubkey"
proof
  assume a: "expandMiniscript E ms seg net = Inl DuplicatePubkey"
  show False
  proof (cases "replaceKeyExpressions E seg net [] ms (0, [])")
    case (Inl e)
    with a have "e = DuplicatePubkey" by (simp add: expandMiniscript_def)
    with Inl replaceKeyExpressions_error show False by blast
  next
    case (Inr r)
    obtain em n emap where r: "r = (em, n, emap)" by (cases r)
    have "fresh_refs (0, [])" by (simp add: fresh_refs_def)
    with Inr r replaceKeyExpressions_fresh have "fresh_refs (n, emap)" by blast
    then have "distinct (map ident (map snd emap))"
      by (simp add: fresh_refs_def comp_def)
    then have "length (remdups (map ident (map snd emap))) = length (map snd emap)"
      by (simp add: distinct_remdups_id)
    with a Inr r show False by (simp add: expandMiniscript_def)
  qed
qed


text \<open>
  C1. Claim: when two distinct key tokens of a miniscript resolve to the same compressed
  pubkey, expandMiniscript fails with the duplicate-pubkey error.
  The code does not: lines 195-196 put the KeyExpression objects into a Set, which
  compares references, and every token has an object of its own. Here the two tokens are
  the same key, written in lower case and in upper case; the expansion succeeds, and both
  variables hold the pubkey \<open>K1\<close>.
\<close>

theorem expandMiniscript_keeps_duplicate_pubkey:
  "\<exists>ke. expandMiniscript tiny_env (''and_v(v:pk('' @ K1 @ ''),pk('' @ K1_upper @ ''))'')
            True Bitcoin
          = Inr (''and_v(v:pk(@0),pk(@1))'', [(''@0'', Obj 0 ke), (''@1'', Obj 1 ke)])
        \<and> toHex (pubkey ke) = K1 \<and> K1 \<noteq> K1_upper"
proof -
  let ?ke = "\<lparr>pubkey = pubkeyOf K1, masterFingerprint = None, path = None\<rparr>"
  have 1: "expandMiniscript tiny_env (''and_v(v:pk('' @ K1 @ ''),pk('' @ K1_upper @ ''))'')
            True Bitcoin
          = Inr (''and_v(v:pk(@0),pk(@1))'', [(''@0'', Obj 0 ?ke), (''@1'', Obj 1 ?ke)])"
    by code_simp
  have 2: "toHex (pubkey ?ke) = K1"
    by code_simp
  have 3: "K1 \<noteq> K1_upper"
    by code_simp
  from 1 2 3 show ?thesis by blast
qed


subsection \<open>isolate\<close>





text \<open>The expression without its checksum: lines 72-78.\<close>

definition stripChecksum :: "env \<Rightarrow> string \<Rightarrow> string" where
  "stripChecksum E expression =
     (case matchChecksum E expression of
        None \<Rightarrow> expression
      | Some m \<Rightarrow> take (length expression - length m) expression)"

lemma matchChecksum_suffix:
  "matchChecksum E expression = Some m \<Longrightarrow>
   expression = stripChecksum E expression @ m \<and> length m = 9 \<and> hd m = CHR ''#''
   \<and> set (drop 1 m) \<subseteq> set (checksumCharset E)"
proof -
  assume a: "matchChecksum E expression = Some m"
  let ?n = "length expression"
  from a have n: "9 \<le> ?n" and h: "expression ! (?n - 9) = CHR ''#''"
    and c: "list_all (\<lambda>c. c \<in> set (checksumCharset E)) (drop (?n - 8) expression)"
    and m: "m = drop (?n - 9) expression"
    by (auto simp: matchChecksum_def Let_def split: if_splits)
  from m n have l: "length m = 9" by simp
  from a l have s: "stripChecksum E expression = take (?n - 9) expression"
    by (simp add: stripChecksum_def)
  from n have "Suc (?n - 9) = ?n - 8" by simp
  with m have d: "drop 1 m = drop (?n - 8) expression" by simp
  from m n h have "hd m = CHR ''#''" by (simp add: hd_drop_conv_nth)
  with s m l d c show ?thesis by (auto simp: list_all_iff)
qed




subsection \<open>satisfyMiniscript: the choice of the solution\<close>

lemma substituteKnowns_error:
  "substituteKnowns m a = Inl e \<Longrightarrow> e = InvalidKnownsMap"
  by (induction m a rule: substituteKnowns.induct) (auto split: if_splits)

lemma substituteKeys_error:
  "substituteKeys E m a = Inl e \<Longrightarrow> e = InvalidExpansionMap"
  by (induction E m a rule: substituteKeys.induct) (auto simp: Let_def split: if_splits)

lemma substituteAsm_error:
  "substituteAsm E a m = Inl e \<Longrightarrow> e = InvalidExpansionMap"
  by (auto simp: substituteAsm_def andThen_Inl_iff dest: substituteKeys_error)

lemma materialize_error:
  "materialize E emap km sat = Inl e \<Longrightarrow>
   e = InvalidKnownsMap \<or> e = InvalidExpansionMap \<or> e = AsmError"
  by (auto simp: materialize_def andThen_Inl_iff split: option.splits
           dest: substituteKnowns_error substituteAsm_error)

lemma materialize_result:
  "materialize E emap km sat = Inr r \<Longrightarrow>
   r_nLockTime r = nLockTime sat \<and> r_nSequence r = nSequence sat"
  by (auto simp: materialize_def andThen_Inr_iff split: option.splits)

text \<open>Lines 345-347: a solution meets the constraints.\<close>

abbreviation meets :: "Constraints \<Rightarrow> Sat \<Rightarrow> bool" where
  "meets c \<equiv>
     (\<lambda>nonMalleableSat. nSequence nonMalleableSat = c_nSequence c
                         \<and> nLockTime nonMalleableSat = c_nLockTime c)"

text \<open>
  C5, as the code has it. When the expansion succeeds, the satisfier is called with the
  keys of the knowns.
  If its list is empty the call fails with Unresolvable, with or without constraints:
  the guard of line 337 stands in front of both branches.
  If the list is not empty: without constraints the first solution is chosen (and the
  call never fails with Unresolvable); with constraints the first solution whose
  nSequence and nLockTime equal the constraints is chosen, and the call fails with
  ConstraintsUnmet when there is none. The chosen solution is then turned into the
  result by \<open>materialize\<close>, which keeps its nLockTime and nSequence.
\<close>

theorem satisfyMiniscript_selection:
  assumes "expandMiniscript E ms seg net = Inr (em, emap)"
  shows "let knownsMap = expandedKnownsMap emap sigs pre;
             sats = satisfier E em (map fst knownsMap);
             result = (\<lambda>constraints. satisfyMiniscript E ms seg sigs pre constraints net)
         in (sats = [] \<longrightarrow> (\<forall>constraints. result constraints = Inl Unresolvable))
          \<and> (sats \<noteq> [] \<longrightarrow>
                result None = materialize E emap knownsMap (hd sats)
                \<and> result None \<noteq> Inl Unresolvable
                \<and> (\<forall>c. case List.find (meets c) sats of
                           None \<Rightarrow> result (Some c) = Inl ConstraintsUnmet
                         | Some sat \<Rightarrow>
                             result (Some c) = materialize E emap knownsMap sat
                             \<and> result (Some c) \<noteq> Inl ConstraintsUnmet
                             \<and> result (Some c) \<noteq> Inl Unresolvable))
          \<and> (\<forall>sat r. materialize E emap knownsMap sat = Inr r \<longrightarrow>
                r_nLockTime r = nLockTime sat \<and> r_nSequence r = nSequence sat)"
  using assms
  by (auto simp: satisfyMiniscript_def selectSat_def Let_def
           split: list.splits option.splits
           dest: materialize_error materialize_result)

theorem satisfyMiniscript_selection_witness:
  "satisfyMiniscript tiny_env older144 True [sigBy K1] [] None Bitcoin
     = Inr \<lparr>scriptSatisfaction = 64 # replicate 64 0,
            r_nLockTime = None, r_nSequence = Some 144\<rparr>
   \<and> satisfyMiniscript tiny_env older144 True [sigBy K1] []
        (Some \<lparr>c_nLockTime = None, c_nSequence = Some 144\<rparr>) Bitcoin
     = Inr \<lparr>scriptSatisfaction = 64 # replicate 64 0,
            r_nLockTime = None, r_nSequence = Some 144\<rparr>
   \<and> satisfyMiniscript tiny_env older144 True [sigBy K1] []
        (Some \<lparr>c_nLockTime = None, c_nSequence = None\<rparr>) Bitcoin
     = Inl ConstraintsUnmet
   \<and> satisfyMiniscript tiny_env older144 True [] [] None Bitcoin = Inl Unresolvable"
proof -
  let ?em = "''and_v(v:pk(@0),older(144))''"
  let ?emap = "[(''@0'', Obj 0 (keyOf K1))]"
  let ?sat = "\<lparr>asm = ''<sig(@0)>'', nLockTime = None, nSequence = Some 144\<rparr>"
  let ?km = "expandedKnownsMap ?emap [sigBy K1] []"
  let ?r = "Inr \<lparr>scriptSatisfaction = 64 # replicate 64 0,
                 r_nLockTime = None, r_nSequence = Some 144\<rparr> :: error + Satisfaction"
  have e: "expandMiniscript tiny_env older144 True Bitcoin = Inr (?em, ?emap)"
    by code_simp
  note t = satisfyMiniscript_selection [OF e, of "[sigBy K1]" "[]", unfolded Let_def]
  note u = satisfyMiniscript_selection [OF e, of "[]" "[]", unfolded Let_def]
  have sats: "satisfier tiny_env ?em (map fst ?km) = [?sat]"
    by code_simp
  have none: "satisfier tiny_env ?em (map fst (expandedKnownsMap ?emap [] [])) = []"
    by code_simp
  have m: "materialize tiny_env ?emap ?km ?sat = ?r"
    by code_simp
  have f1: "List.find (meets \<lparr>c_nLockTime = None, c_nSequence = Some 144\<rparr>) [?sat]
            = Some ?sat"
    by simp
  have f2: "List.find (meets \<lparr>c_nLockTime = None, c_nSequence = None\<rparr>) [?sat] = None"
    by simp
  have ne: "satisfier tiny_env ?em (map fst ?km) \<noteq> []"
    by (simp only: sats) simp
  from t ne have "satisfyMiniscript tiny_env older144 True [sigBy K1] [] None Bitcoin
      = materialize tiny_env ?emap ?km (hd (satisfier tiny_env ?em (map fst ?km)))"
    by blast
  then have 1: "satisfyMiniscript tiny_env older144 True [sigBy K1] [] None Bitcoin = ?r"
    by (simp only: sats list.sel m)
  from t ne have c: "\<And>c. case List.find (meets c) (satisfier tiny_env ?em (map fst ?km)) of
       None \<Rightarrow> satisfyMiniscript tiny_env older144 True [sigBy K1] [] (Some c) Bitcoin
               = Inl ConstraintsUnmet
     | Some sat \<Rightarrow>
         satisfyMiniscript tiny_env older144 True [sigBy K1] [] (Some c) Bitcoin
         = materialize tiny_env ?emap ?km sat
         \<and> satisfyMiniscript tiny_env older144 True [sigBy K1] [] (Some c) Bitcoin
           \<noteq> Inl ConstraintsUnmet
         \<and> satisfyMiniscript tiny_env older144 True [sigBy K1] [] (Some c) Bitcoin
           \<noteq> Inl Unresolvable"
    by blast
  have 2: "satisfyMiniscript tiny_env older144 True [sigBy K1] []
      (Some \<lparr>c_nLockTime = None, c_nSequence = Some 144\<rparr>) Bitcoin = ?r"
    using c [of "\<lparr>c_nLockTime = None, c_nSequence = Some 144\<rparr>"]
    by (simp only: sats f1 option.case m)
  have 3: "satisfyMiniscript tiny_env older144 True [sigBy K1] []
      (Some \<lparr>c_nLockTime = None, c_nSequence = None\<rparr>) Bitcoin = Inl ConstraintsUnmet"
    using c [of "\<lparr>c_nLockTime = None, c_nSequence = None\<rparr>"]
    by (simp only: sats f2 option.case)
  from u none have 4: "satisfyMiniscript tiny_env older144 True [] [] None Bitcoin
      = Inl Unresolvable"
    by blast
  from 1 2 3 4 show ?thesis by blast
qed

text \<open>
  C5 as the claim states it fails where constraints are given and the list of the
  satisfier is empty: no solution matches the constraints, and the call fails with
  Unresolvable, not with ConstraintsUnmet. Here \<^verbatim>\<open>pk(K1)\<close> is satisfied without any
  signature.
\<close>

theorem satisfyMiniscript_constraints_empty_list:
  "expandMiniscript tiny_env pkK1 True Bitcoin = Inr (''pk(@0)'', [(''@0'', Obj 0 (keyOf K1))])
   \<and> satisfier tiny_env ''pk(@0)''
        (map fst (expandedKnownsMap [(''@0'', Obj 0 (keyOf K1))] [] [])) = []
   \<and> satisfyMiniscript tiny_env pkK1 True [] []
        (Some \<lparr>c_nLockTime = None, c_nSequence = None\<rparr>) Bitcoin = Inl Unresolvable
   \<and> satisfyMiniscript tiny_env pkK1 True [] []
        (Some \<lparr>c_nLockTime = None, c_nSequence = None\<rparr>) Bitcoin \<noteq> Inl ConstraintsUnmet"
  by code_simp

subsection \<open>satisfyMiniscript: signatures of unknown keys\<close>

lemma assign_keys: "fst ` set (assign m k v) = insert k (fst ` set m)"
proof (induction m)
  case Nil
  show ?case by simp
next
  case (Cons a m)
  obtain k' v' where a: "a = (k', v')" by (cases a)
  show ?case
  proof (cases "k' = k")
    case True
    with a show ?thesis by simp
  next
    case False
    with a Cons show ?thesis by (simp add: insert_commute)
  qed
qed

lemma assign_key: "k \<in> fst ` set (assign m k v)"
  by (simp add: assign_keys)

lemma foldl_assign_keys:
  "fst ` set (foldl (\<lambda>m kv. assign m (fst kv) (snd kv)) m0 kvs)
   = fst ` set m0 \<union> fst ` set kvs"
proof (induction kvs arbitrary: m0)
  case Nil
  show ?case by simp
next
  case (Cons kv kvs)
  show ?case by (simp add: Cons.IH assign_keys)
qed

lemma unmatched_signature_in_knowns:
  assumes "findKeyExpression emap (toHex (sig_pubkey sg)) = None"
  shows "''<sig(undefined)>'' \<in> set (map fst (expandedKnownsMap emap (sigs @ [sg]) pre))"
proof -
  have "''<sig(undefined)>'' \<in> fst ` set (expandedSignatureMap emap (sigs @ [sg]))"
    using assms by (simp add: expandedSignatureMap_def Let_def assign_key)
  then show ?thesis
    using foldl_assign_keys [of "[]" "preimageMap pre @ expandedSignatureMap emap (sigs @ [sg])"]
    by (simp add: expandedKnownsMap_def case_prod_unfold image_Un)
qed

text \<open>
  C2. Claim: a signature whose pubkey is not in the expansion map adds no entry to the
  knowns and has no effect on the result.
  The code does not ignore it: \<^verbatim>\<open>find\<close> returns \<^verbatim>\<open>undefined\<close> at line 326, and
  line 329 builds the key \<^verbatim>\<open><sig(undefined)>\<close> from it. For the miniscript
  \<^verbatim>\<open>pk(K1)\<close> a signature by \<open>K2\<close> adds that key to the knowns; and when the
  signature of the unknown key is empty, the call that succeeds without it fails at
  line 363.
\<close>

theorem unmatched_signature_is_not_ignored:
  "findKeyExpression [(''@0'', Obj 0 (keyOf K1))] (toHex (sig_pubkey (sigBy K2))) = None
   \<and> map fst (expandedKnownsMap [(''@0'', Obj 0 (keyOf K1))] [sigBy K1] [])
       = [''<sig(@0)>'']
   \<and> map fst (expandedKnownsMap [(''@0'', Obj 0 (keyOf K1))] [sigBy K1, sigBy K2] [])
       = [''<sig(@0)>'', ''<sig(undefined)>'']
   \<and> satisfyMiniscript tiny_env pkK1 True [sigBy K1] [] None Bitcoin
       = Inr \<lparr>scriptSatisfaction = 64 # replicate 64 0,
              r_nLockTime = None, r_nSequence = None\<rparr>
   \<and> satisfyMiniscript tiny_env pkK1 True
        [sigBy K1, \<lparr>sig_pubkey = pubkeyOf K2, signature = []\<rparr>] [] None Bitcoin
       = Inl InvalidKnownsMap"
  by code_simp

subsection \<open>finalizePsbtInput\<close>

lemma getScriptSatisfaction_key_only:
  "\<not> truthy (d_miniscript d) \<Longrightarrow> getScriptSatisfaction E d signatures = Inl NoMiniscript"
  by (simp add: getScriptSatisfaction_def)

lemma finalizePsbtInput_key_only:
  assumes "\<not> truthy (d_miniscript d)"
    and "index < length (inputs psbt)"
    and "partialSig (inputs psbt ! index) = Some signatures"
  shows "finalizePsbtInput E d index psbt = Inl NoMiniscript"
  using assms by (simp add: finalizePsbtInput_def getScriptSatisfaction_key_only)

lemma finalizePsbtInput_never_default:
  "finalizePsbtInput E d index psbt = Inr psbt' \<Longrightarrow>
   \<exists>s. psbt_finalizeInput E psbt index (SatisfactionFinalizer s (d_network d)) = Some psbt'"
  by (auto simp: finalizePsbtInput_def andThen_Inr_iff truthy_buffer_def Let_def
           split: option.splits if_splits)

text \<open>
  C3. Claim: for a descriptor without miniscript finalizePsbtInput falls through to the
  default finalizer of the Psbt instead of failing.
  The code fails: line 861 calls getScriptSatisfaction, which throws at line 757 when the
  descriptor has no miniscript, so line 864 is never reached. Here the descriptor is
  \<^verbatim>\<open>pkh(K1)\<close> and the input holds a signature.
\<close>

theorem finalizePsbtInput_fails_for_key_only:
  "case Descriptor_constructor tiny_env (''pkh('' @ K1 @ '')'') (Integer 0) False False
          Bitcoin [] None of
     Inl e \<Rightarrow> False
   | Inr d \<Rightarrow>
       d_miniscript d = None
       \<and> finalizePsbtInput tiny_env d 0 \<lparr>locktime = None, inputs = [signedInput [sigBy K1]]\<rparr>
           = Inl NoMiniscript"
  by code_simp

end
